theory Spec2Isabelle
  imports Complex_Main
begin

section \<open>Exceptions and results\<close>

text \<open>
  The monitor is a Python 2 script (\<^verbatim>\<open>src/resource_mon.py\<close>). It raises no exception of
  its own and catches none: every failure is an exception of a builtin. A function that can
  raise returns \<open>error + 'a\<close>, with \<open>Inl\<close> for the exception. The spec names the failures
  in its own words; they correspond to the Python exceptions as follows:
  \<^item> \<open>DivideByZeroError\<close> is \<open>ZeroDivisionError\<close>;
  \<^item> \<open>ParseError\<close> is \<open>ValueError\<close> (a token that is no number) or \<open>IndexError\<close> (a
    field that is not there);
  \<^item> \<open>ShapeMismatchError\<close> is the \<open>IndexError\<close> of the subtraction loop;
  \<^item> \<open>NotFoundError\<close> is \<open>UnboundLocalError\<close>: \<^verbatim>\<open>GetIOData\<close> returns a local variable
    that no line assigned.

  Python floats are modelled as real numbers: rounding and overflow are not modelled.
  The literals \<^verbatim>\<open>inf\<close>, \<^verbatim>\<open>infinity\<close> and \<^verbatim>\<open>nan\<close>, which \<^verbatim>\<open>float()\<close> accepts and
  which denote no real number, are outside the model; the model marks them \<open>Unmodelled\<close>,
  which is no Python exception.
\<close>

datatype error = IndexError | ValueError | ZeroDivisionError | UnboundLocalError | Unmodelled

definition bindE :: "error + 'a \<Rightarrow> ('a \<Rightarrow> error + 'b) \<Rightarrow> error + 'b" where
  "bindE m f = (case m of Inl e \<Rightarrow> Inl e | Inr v \<Rightarrow> f v)"

primrec mapE :: "('a \<Rightarrow> error + 'b) \<Rightarrow> 'a list \<Rightarrow> error + 'b list" where
  "mapE f [] = Inr []"
| "mapE f (x # xs) = bindE (f x) (\<lambda>v. bindE (mapE f xs) (\<lambda>vs. Inr (v # vs)))"

section \<open>The builtins the monitor calls\<close>

text \<open>
  \<^verbatim>\<open>xs[i]\<close>: a negative index counts from the end, an index out of range raises
  \<open>IndexError\<close>.
\<close>

definition getitem :: "'a list \<Rightarrow> int \<Rightarrow> error + 'a" where
  "getitem xs i =
     (let j = (if i < 0 then i + int (length xs) else i)
      in if j < 0 \<or> int (length xs) \<le> j then Inl IndexError else Inr (xs ! nat j))"

text \<open>\<^verbatim>\<open>xs[i:j]\<close> for \<open>0 \<le> i \<le> j\<close>: never raises, the slice is cut at the end of the list.\<close>

definition slice :: "'a list \<Rightarrow> nat \<Rightarrow> nat \<Rightarrow> 'a list" where
  "slice xs i j = take (j - i) (drop i xs)"

text \<open>The whitespace of a Python 2 byte string: space, tab, newline, VT, FF, CR.\<close>

definition isspace :: "char \<Rightarrow> bool" where
  "isspace c =
     (c = CHR '' '' \<or> c = CHR 0x09 \<or> c = CHR 0x0A \<or> c = CHR 0x0B \<or> c = CHR 0x0C \<or> c = CHR 0x0D)"

definition isdigit :: "char \<Rightarrow> bool" where
  "isdigit c = (48 \<le> (of_char c :: nat) \<and> (of_char c :: nat) \<le> 57)"

definition strip :: "string \<Rightarrow> string" where
  "strip s = rev (dropWhile isspace (rev (dropWhile isspace s)))"

text \<open>
  \<^verbatim>\<open>s.split(sep)\<close> with a separator of one character: every occurrence separates, so two
  adjacent separators enclose an empty token, and the empty string gives one empty token.
\<close>

fun split_sep :: "char \<Rightarrow> string \<Rightarrow> string list" where
  "split_sep sep [] = [[]]"
| "split_sep sep (c # cs) =
     (if c = sep then [] # split_sep sep cs
      else (case split_sep sep cs of [] \<Rightarrow> [[c]] | w # ws \<Rightarrow> (c # w) # ws))"

text \<open>
  \<^verbatim>\<open>s.split()\<close>: runs of whitespace separate, no token is empty. \<open>w\<close> is the token being
  read, reversed.
\<close>

fun split_words :: "string \<Rightarrow> string \<Rightarrow> string list" where
  "split_words w [] = (if w = [] then [] else [rev w])"
| "split_words w (c # cs) =
     (if isspace c then (if w = [] then split_words [] cs else rev w # split_words [] cs)
      else split_words (c # w) cs)"

definition split_ws :: "string \<Rightarrow> string list" where
  "split_ws s = split_words [] s"

text \<open>
  \<^verbatim>\<open>f.readline()\<close> on a file just opened, and the iteration \<^verbatim>\<open>for line in f\<close>: a line
  ends with its newline, the last one may lack it; the empty file has no line and
  \<^verbatim>\<open>readline\<close> returns the empty string there.
\<close>

fun readline :: "string \<Rightarrow> string" where
  "readline [] = []"
| "readline (c # cs) = (if c = CHR 0x0A then [c] else c # readline cs)"

fun file_lines :: "string \<Rightarrow> string list" where
  "file_lines [] = []"
| "file_lines (c # cs) =
     (if c = CHR 0x0A then [c] # file_lines cs
      else (case file_lines cs of [] \<Rightarrow> [[c]] | l # ls \<Rightarrow> (c # l) # ls))"

text \<open>
  Decimal literals. \<^verbatim>\<open>int(s)\<close> strips whitespace and reads an optional sign and at least
  one digit; anything else raises \<open>ValueError\<close>. Python 2 integers do not overflow.
\<close>

definition digits_val :: "string \<Rightarrow> nat" where
  "digits_val ds = foldl (\<lambda>a c. 10 * a + (of_char c - 48)) 0 ds"

definition unsigned :: "string \<Rightarrow> bool \<times> string" where
  "unsigned s =
     (case s of
        [] \<Rightarrow> (False, [])
      | c # r \<Rightarrow> if c = CHR ''-'' then (True, r) else if c = CHR ''+'' then (False, r) else (False, s))"

definition py_int :: "string \<Rightarrow> error + int" where
  "py_int s =
     (let (neg, ds) = unsigned (strip s)
      in if ds = [] \<or> \<not> list_all isdigit ds then Inl ValueError
         else Inr (if neg then - int (digits_val ds) else int (digits_val ds)))"

text \<open>
  \<^verbatim>\<open>float(s)\<close> (Python 2.7) strips whitespace and reads an optional sign, digits with an
  optional fraction (at least one digit in all) and an optional exponent.
\<close>

definition lower :: "char \<Rightarrow> char" where
  "lower c = (if 65 \<le> (of_char c :: nat) \<and> (of_char c :: nat) \<le> 90
              then char_of ((of_char c :: nat) + 32) else c)"

definition exponent :: "string \<Rightarrow> (error + int)" where
  "exponent r =
     (case r of
        [] \<Rightarrow> Inr 0
      | e # x \<Rightarrow>
          if lower e = CHR ''e'' then
            (let (neg, ds) = unsigned x
             in if ds = [] \<or> \<not> list_all isdigit ds then Inl ValueError
                else Inr (if neg then - int (digits_val ds) else int (digits_val ds)))
          else Inl ValueError)"

definition py_float :: "string \<Rightarrow> error + real" where
  "py_float s =
     (let (neg, u) = unsigned (strip s);
          ip = takeWhile isdigit u;
          r1 = dropWhile isdigit u;
          fp = (case r1 of [] \<Rightarrow> [] | d # r \<Rightarrow> if d = CHR ''.'' then takeWhile isdigit r else []);
          r2 = (case r1 of [] \<Rightarrow> [] | d # r \<Rightarrow> if d = CHR ''.'' then dropWhile isdigit r else r1);
          m = real (digits_val ip) + real (digits_val fp) / 10 ^ length fp
      in if map lower u \<in> {''inf'', ''infinity'', ''nan''} then Inl Unmodelled
         else if ip = [] \<and> fp = [] then Inl ValueError
         else bindE (exponent r2) (\<lambda>x.
           Inr ((if neg then - m else m) * (if x < 0 then 1 / 10 ^ nat (- x) else 10 ^ nat x))))"

text \<open>\<^verbatim>\<open>a / b\<close> on floats raises \<open>ZeroDivisionError\<close> when \<open>b\<close> is zero.\<close>

definition py_div :: "real \<Rightarrow> real \<Rightarrow> error + real" where
  "py_div a b = (if b = 0 then Inl ZeroDivisionError else Inr (a / b))"

section \<open>The monitor\<close>

text \<open>
  The monitor reads \<^verbatim>\<open>/proc/stat\<close> and \<^verbatim>\<open>/proc/diskstats\<close>, sleeps
  \<^verbatim>\<open>SAMPLE_INTERVAL\<close> seconds and reads them again. The content of a file at the moment
  it is read is an argument of the function that reads it; the sleep has no other effect
  on what is computed. \<^verbatim>\<open>DISKS_TO_MONITOR\<close> is an attribute of the class, and an
  argument here.
\<close>

definition SAMPLE_INTERVAL :: nat where
  "SAMPLE_INTERVAL = 2"

definition DISKS_TO_MONITOR :: "string list" where
  "DISKS_TO_MONITOR = [''sda'']"

subsection \<open>CPU\<close>

text \<open>
  \<^verbatim>\<open>GetCPUData\<close>: the first line, split at every single space, the tokens 2 to 5 of it as
  far as they exist, each converted by \<^verbatim>\<open>int\<close> from left to right.
\<close>

definition GetCPUData :: "string \<Rightarrow> error + int list" where
  "GetCPUData proc_cpu_data =
     (let cpu_usage = slice (split_sep (CHR '' '') (readline proc_cpu_data)) 2 6
      in mapE py_int cpu_usage)"

text \<open>
  The loop of \<^verbatim>\<open>GetCPUDelta\<close> and of \<^verbatim>\<open>GetIODelta\<close>:
  \<^verbatim>\<open>for i in range(len(first_sample)): second_sample[i] -= first_sample[i]\<close>.
  The index runs over the first sample, so \<open>first_sample ! i\<close> is in range; the second
  sample is read and written at \<open>i\<close>, which raises \<open>IndexError\<close> when it is shorter.
\<close>

primrec delta_loop :: "nat list \<Rightarrow> 'a::minus list \<Rightarrow> 'a list \<Rightarrow> error + 'a list" where
  "delta_loop [] first_sample second_sample = Inr second_sample"
| "delta_loop (i # rest) first_sample second_sample =
     (if i < length second_sample
      then delta_loop rest first_sample
             (second_sample[i := second_sample ! i - first_sample ! i])
      else Inl IndexError)"

definition sample_delta :: "'a::minus list \<Rightarrow> 'a list \<Rightarrow> error + 'a list" where
  "sample_delta first_sample second_sample =
     delta_loop [0..<length first_sample] first_sample second_sample"

definition GetCPUDelta :: "int list \<Rightarrow> string \<Rightarrow> error + int list" where
  "GetCPUDelta first_sample proc_cpu_data =
     bindE (GetCPUData proc_cpu_data) (\<lambda>second_sample. sample_delta first_sample second_sample)"

text \<open>
  The percentage of \<^verbatim>\<open>GetCPUStats\<close>, from the delta:
  \<^verbatim>\<open>100 - (cpu_delta[len(cpu_delta) - 1] * 100.00 / sum(cpu_delta))\<close>. The element is
  read before the sum is taken and the division made.
\<close>

definition cpu_percentage :: "int list \<Rightarrow> error + real" where
  "cpu_percentage cpu_delta =
     bindE (getitem cpu_delta (int (length cpu_delta) - 1)) (\<lambda>idle.
     bindE (py_div (real_of_int idle * 100) (real_of_int (sum_list cpu_delta))) (\<lambda>q.
     Inr (100 - q)))"

definition GetCPUStats :: "string \<Rightarrow> string \<Rightarrow> error + real" where
  "GetCPUStats stat1 stat2 =
     bindE (GetCPUData stat1) (\<lambda>first_sample.
     bindE (GetCPUDelta first_sample stat2) cpu_percentage)"

subsection \<open>Disk I/O\<close>

text \<open>
  \<^verbatim>\<open>CalculateIOBandwidth\<close>, in the order of the source: the fields 5, 6, 9 and 10 are
  read (\<open>IndexError\<close> when the line has fewer than 11 fields), then \<^verbatim>\<open>float\<close> converts
  the sectors read, the sectors written, the milliseconds reading and the milliseconds
  writing, then come the two divisions \<^verbatim>\<open>1 / reading_seconds\<close> and
  \<^verbatim>\<open>1 / writing_seconds\<close>. The result is the list of the read rate and the write rate.
\<close>

definition CalculateIOBandwidth :: "string list \<Rightarrow> error + real list" where
  "CalculateIOBandwidth io_fields =
     bindE (getitem io_fields 5) (\<lambda>sectors_read.
     bindE (getitem io_fields 6) (\<lambda>reading_milliseconds.
     bindE (getitem io_fields 9) (\<lambda>sectors_wrote.
     bindE (getitem io_fields 10) (\<lambda>writing_milliseconds.
     bindE (py_float sectors_read) (\<lambda>sr.
     bindE (py_float sectors_wrote) (\<lambda>sw.
     bindE (py_float reading_milliseconds) (\<lambda>rm.
     bindE (py_float writing_milliseconds) (\<lambda>wm.
       let kb_sectors_read = (sr * 512) / 128;
           kb_sectors_wrote = (sw * 512) / 128;
           reading_seconds = rm / 1000;
           writing_seconds = wm / 1000
       in bindE (py_div 1 reading_seconds) (\<lambda>per_read.
          bindE (py_div 1 writing_seconds) (\<lambda>per_write.
          Inr [per_read * kb_sectors_read, per_write * kb_sectors_wrote]))))))))))"

text \<open>
  The loop of \<^verbatim>\<open>GetIOData\<close> over the lines of the file. \<open>io_bandwidth\<close> is the local
  variable of that name: \<open>None\<close> until a line of a monitored disk assigns it. The field at
  index 2 is read for every line, before the disk is looked up.
\<close>

fun io_loop :: "string list \<Rightarrow> string list \<Rightarrow> real list option \<Rightarrow> error + real list option" where
  "io_loop disks [] io_bandwidth = Inr io_bandwidth"
| "io_loop disks (line # rest) io_bandwidth =
     (let io_fields = split_ws line
      in bindE (getitem io_fields 2) (\<lambda>name.
           if name \<notin> set disks then io_loop disks rest io_bandwidth
           else bindE (CalculateIOBandwidth io_fields) (\<lambda>bw. io_loop disks rest (Some bw))))"

definition GetIOData :: "string list \<Rightarrow> string \<Rightarrow> error + real list" where
  "GetIOData disks proc_io_data =
     bindE (io_loop disks (file_lines proc_io_data) None) (\<lambda>io_bandwidth.
       case io_bandwidth of None \<Rightarrow> Inl UnboundLocalError | Some bw \<Rightarrow> Inr bw)"

definition GetIODelta :: "string list \<Rightarrow> real list \<Rightarrow> string \<Rightarrow> error + real list" where
  "GetIODelta disks first_sample proc_io_data =
     bindE (GetIOData disks proc_io_data) (\<lambda>second_sample.
       sample_delta first_sample second_sample)"

definition GetIOReadStats :: "string list \<Rightarrow> string \<Rightarrow> string \<Rightarrow> error + real \<times> real" where
  "GetIOReadStats disks diskstats1 diskstats2 =
     bindE (GetIOData disks diskstats1) (\<lambda>first_sample.
     bindE (GetIODelta disks first_sample diskstats2) (\<lambda>io_delta.
     bindE (getitem io_delta 0) (\<lambda>ior.
     bindE (getitem io_delta 1) (\<lambda>iow. Inr (ior, iow)))))"

section \<open>Vocabulary of the statements\<close>

text \<open>
  What follows is no code of the monitor. \<open>monitored disks line\<close> says that the line has
  a field at index 2 and that it names a monitored disk: these are the lines for which
  \<^verbatim>\<open>GetIOData\<close> calls \<^verbatim>\<open>CalculateIOBandwidth\<close>. The remaining constants are sample
  contents of \<^verbatim>\<open>/proc/stat\<close> and \<^verbatim>\<open>/proc/diskstats\<close>.
\<close>

definition monitored :: "string list \<Rightarrow> string \<Rightarrow> bool" where
  "monitored disks line = (2 < length (split_ws line) \<and> split_ws line ! 2 \<in> set disks)"

definition stat_first :: string where
  "stat_first = ''cpu  100 0 0 300 0 0 0'' @ [CHR 0x0A] @ ''cpu0 100 0 0 300 0 0 0'' @ [CHR 0x0A]"

definition stat_second :: string where
  "stat_second = ''cpu  110 0 0 320 0 0 0'' @ [CHR 0x0A] @ ''cpu0 110 0 0 320 0 0 0'' @ [CHR 0x0A]"

definition stat_short :: string where
  "stat_short = ''cpu 1 2''"

definition sda_fields :: "string list" where
  "sda_fields =
     [''8'', ''0'', ''sda'', ''1'', ''1'', ''256'', ''2000'', ''1'', ''1'', ''128'', ''1000'']"

definition diskstats_first :: string where
  "diskstats_first =
     ''   7       0 loop0 0 0 0 0 0 0 0 0 0 0 0'' @ [CHR 0x0A] @
     ''   8       0 sda 1 1 256 2000 1 1 128 1000 0 0 0'' @ [CHR 0x0A]"

definition diskstats_second :: string where
  "diskstats_second =
     ''   7       0 loop0 0 0 0 0 0 0 0 0 0 0 0'' @ [CHR 0x0A] @
     ''   8       0 sda 2 2 768 3000 2 2 256 2000 0 0 0'' @ [CHR 0x0A]"

text \<open>
  The fields a line would have whose counters are the differences of the counters of the
  two samples above: 768 - 256, 3000 - 2000, 256 - 128 and 2000 - 1000.
\<close>

definition raw_delta_fields :: "string list" where
  "raw_delta_fields =
     [''8'', ''0'', ''sda'', ''1'', ''1'', ''512'', ''1000'', ''1'', ''1'', ''128'', ''1000'']"

definition diskstats_other :: string where
  "diskstats_other = ''   8      16 sdb 1 1 256 2000 1 1 128 1000 0 0 0'' @ [CHR 0x0A]"

definition diskstats_twice :: string where
  "diskstats_twice =
     ''   8       0 sda 1 1 256 2000 1 1 128 1000 0 0 0'' @ [CHR 0x0A] @
     ''   8       0 sda 2 2 768 3000 2 2 256 2000 0 0 0'' @ [CHR 0x0A]"

definition diskstats_blank :: string where
  "diskstats_blank = ''x'' @ [CHR 0x0A]"

definition diskstats_idle_then_blank :: string where
  "diskstats_idle_then_blank =
     ''   8       0 sda 1 1 1 0 1 1 1 1 0 0 0'' @ [CHR 0x0A] @ ''x'' @ [CHR 0x0A]"

definition stat_bad :: string where
  "stat_bad = ''cpu  1 x 3 4''"

definition blank_line :: string where
  "blank_line = [CHR 0x0A]"

definition diskstats_first_then_blank :: string where
  "diskstats_first_then_blank = diskstats_first @ blank_line @ diskstats_second"

section \<open>Basic facts\<close>

lemma bindE_Inr [simp]: "bindE (Inr v) f = f v"
  by (simp add: bindE_def)

lemma bindE_Inl [simp]: "bindE (Inl e) f = Inl e"
  by (simp add: bindE_def)

lemma bindE_eq_Inr: "bindE m f = Inr r \<longleftrightarrow> (\<exists>v. m = Inr v \<and> f v = Inr r)"
  by (cases m) simp_all

lemma getitem_nat:
  "getitem xs (int n) = (if n < length xs then Inr (xs ! n) else Inl IndexError)"
  by (simp add: getitem_def)

lemma getitem_numeral:
  "getitem xs (numeral k) =
     (if numeral k < length xs then Inr (xs ! numeral k) else Inl IndexError)"
  using getitem_nat [of xs "numeral k"] by simp

lemma getitem_last:
  "getitem xs (int (length xs) - 1) = (if xs = [] then Inl IndexError else Inr (last xs))"
proof (cases xs rule: rev_cases)
  case Nil
  then show ?thesis by (simp add: getitem_def)
next
  case (snoc ys y)
  then show ?thesis by (simp add: getitem_def nth_append)
qed

lemma length_two: "length xs = 2 \<Longrightarrow> xs = [xs ! 0, xs ! 1]"
  by (cases xs; cases "tl xs") auto

text \<open>The definitions that evaluate a literal, and those that cut a text into tokens.\<close>

lemmas literal_defs =
  py_int_def py_float_def exponent_def unsigned_def strip_def isspace_def isdigit_def
  digits_val_def lower_def

lemmas text_defs = split_ws_def slice_def blank_line_def

lemmas io_defs =
  GetIOData_def CalculateIOBandwidth_def getitem_def py_div_def DISKS_TO_MONITOR_def

section \<open>The delta of two samples\<close>

text \<open>
  The loop over distinct indices that are all in range of the second sample subtracts at
  these indices and leaves the others as they are.
\<close>

lemma delta_loop_in_range:
  "distinct idx \<Longrightarrow> \<forall>i\<in>set idx. i < length s \<Longrightarrow>
     \<exists>r. delta_loop idx f s = Inr r \<and> length r = length s \<and>
         (\<forall>j<length s. r ! j = (if j \<in> set idx then s ! j - f ! j else s ! j))"
proof (induction idx arbitrary: s)
  case Nil
  then show ?case by simp
next
  case (Cons i rest)
  let ?s = "s[i := s ! i - f ! i]"
  have "distinct rest" and "\<forall>k\<in>set rest. k < length ?s" and i: "i < length s" "i \<notin> set rest"
    using Cons.prems by auto
  from Cons.IH [OF this(1,2)] obtain r where
    r: "delta_loop rest f ?s = Inr r" "length r = length s"
       "\<forall>j<length s. r ! j = (if j \<in> set rest then ?s ! j - f ! j else ?s ! j)"
    by auto
  have "delta_loop (i # rest) f s = Inr r"
    using r(1) i(1) by simp
  moreover have "\<forall>j<length s. r ! j = (if j \<in> set (i # rest) then s ! j - f ! j else s ! j)"
    using r(3) i by (auto simp: nth_list_update)
  ultimately show ?case using r(2) by blast
qed

lemma delta_loop_out_of_range:
  "\<exists>i\<in>set idx. length s \<le> i \<Longrightarrow> delta_loop idx f s = Inl IndexError"
proof (induction idx arbitrary: s)
  case Nil
  then show ?case by simp
next
  case (Cons i rest)
  show ?case
  proof (cases "i < length s")
    case True
    with Cons.prems have "\<exists>k\<in>set rest. length (s[i := s ! i - f ! i]) \<le> k"
      by auto
    from Cons.IH [OF this] True show ?thesis by simp
  next
    case False
    then show ?thesis by simp
  qed
qed

lemma sample_delta_fits:
  assumes "length a \<le> length b"
  shows "\<exists>r. sample_delta a b = Inr r \<and> length r = length b \<and>
           (\<forall>j<length b. r ! j = (if j < length a then b ! j - a ! j else b ! j))"
  using delta_loop_in_range [of "[0..<length a]" b a] assms
  by (simp add: sample_delta_def)

lemma sample_delta_short:
  assumes "length b < length a"
  shows "sample_delta a b = Inl IndexError"
  unfolding sample_delta_def
  by (rule delta_loop_out_of_range) (use assms in auto)

lemma sample_delta_closed:
  assumes "length a \<le> length b"
  shows "sample_delta a b = Inr (map2 (\<lambda>y x. y - x) b a @ drop (length a) b)"
proof -
  from sample_delta_fits [OF assms] obtain r where
    r: "sample_delta a b = Inr r" "length r = length b"
       "\<forall>j<length b. r ! j = (if j < length a then b ! j - a ! j else b ! j)"
    by blast
  have "r = map2 (\<lambda>y x. y - x) b a @ drop (length a) b"
  proof (rule nth_equalityI)
    show "length r = length (map2 (\<lambda>y x. y - x) b a @ drop (length a) b)"
      using r(2) assms by simp
  next
    fix j assume "j < length r"
    then show "r ! j = (map2 (\<lambda>y x. y - x) b a @ drop (length a) b) ! j"
      using r(2,3) assms by (auto simp: nth_append)
  qed
  with r(1) show ?thesis by simp
qed

text \<open>
  \<^verbatim>\<open>GetCPUDelta\<close> and \<^verbatim>\<open>GetIODelta\<close> apply the loop to the first sample and to the
  second sample they read.
\<close>

lemma GetCPUDelta_sample_delta:
  "GetCPUData proc_cpu_data = Inr b \<Longrightarrow> GetCPUDelta a proc_cpu_data = sample_delta a b"
  by (simp add: GetCPUDelta_def)

lemma GetIODelta_sample_delta:
  "GetIOData disks proc_io_data = Inr b \<Longrightarrow> GetIODelta disks a proc_io_data = sample_delta a b"
  by (simp add: GetIODelta_def)

text \<open>
  Claim C4. For integer vectors \<open>a\<close> (the first sample) and \<open>b\<close> (the second) of equal
  length, the delta returns a vector of that length whose element at every index \<open>i\<close> is
  \<open>b ! i - a ! i\<close>. The elements are integers and the difference is the integers' own:
  a negative difference is returned as it is.
\<close>

theorem delta_elementwise:
  fixes a b :: "int list"
  assumes "length a = length b"
  shows "\<exists>r. sample_delta a b = Inr r \<and> r = map2 (\<lambda>y x. y - x) b a \<and>
           length r = length b \<and> (\<forall>i<length b. r ! i = b ! i - a ! i)"
  using sample_delta_closed [of a b] assms by simp

theorem delta_elementwise_witness:
  "length [100, 0, 9, 300 :: int] = length [110, 0, 7, 320 :: int] \<and>
   sample_delta [100, 0, 9, 300] [110, 0, 7, 320 :: int] = Inr [10, 0, - 2, 20]"
  using delta_elementwise [where a = "[100, 0, 9, 300]" and b = "[110, 0, 7, 320]"] by simp

text \<open>
  Claim C6, as stated: whenever the two vectors differ in length the delta fails. It does
  not when the first sample is the shorter one.
\<close>

theorem delta_mismatch_counterexample:
  "length [1 :: int] \<noteq> length [5, 7 :: int] \<and> sample_delta [1] [5, 7 :: int] = Inr [4, 7]"
  by (simp add: sample_delta_def)

text \<open>
  Claim C6, amended. The delta fails when the first sample is longer than the second, with
  the \<open>IndexError\<close> of the subtraction at the first index the second sample lacks; when
  the first sample is not longer, it returns a vector and raises nothing.
\<close>

theorem delta_fails_iff_first_longer:
  fixes a b :: "'a::minus list"
  shows "(length b < length a \<longrightarrow> sample_delta a b = Inl IndexError) \<and>
         (length a \<le> length b \<longrightarrow> (\<exists>r. sample_delta a b = Inr r))"
  using sample_delta_short [of b a] sample_delta_closed [of a b] by blast

theorem delta_fails_iff_first_longer_witness:
  "length [5 :: int] < length [1, 2 :: int] \<and>
   sample_delta [1, 2] [5 :: int] = Inl IndexError \<and>
   length [1 :: int] \<le> length [5, 7 :: int] \<and>
   (\<exists>r. sample_delta [1] [5, 7 :: int] = Inr r)"
  using delta_fails_iff_first_longer [where a = "[1, 2 :: int]" and b = "[5]"]
    delta_fails_iff_first_longer [where a = "[1 :: int]" and b = "[5, 7]"]
  by simp

text \<open>
  Claim C10. When the first sample \<open>a\<close> is shorter than the second sample \<open>b\<close>, the delta
  raises nothing: it returns a vector as long as \<open>b\<close>, with \<open>b ! i - a ! i\<close> at the
  indices of \<open>a\<close> and the elements of \<open>b\<close> unchanged from there on.
\<close>

theorem delta_longer_second:
  fixes a b :: "'a::minus list"
  assumes "length a < length b"
  shows "\<exists>r. sample_delta a b = Inr r \<and> length r = length b \<and>
           (\<forall>i<length a. r ! i = b ! i - a ! i) \<and>
           (\<forall>i. length a \<le> i \<and> i < length b \<longrightarrow> r ! i = b ! i)"
  using sample_delta_fits [of a b] assms by fastforce

theorem delta_longer_second_witness:
  "length [3 :: int] < length [10, 20 :: int] \<and>
   sample_delta [3] [10, 20 :: int] = Inr [7, 20]"
proof -
  have h: "length [3 :: int] < length [10, 20 :: int]" by simp
  from delta_longer_second [OF h] obtain r where
    r: "sample_delta [3] [10, 20 :: int] = Inr r" "length r = 2" "r ! 0 = 7" "r ! 1 = 20"
    by auto
  from length_two [OF r(2)] r(3,4) have "r = [7, 20]" by simp
  with r(1) h show ?thesis by simp
qed

section \<open>The CPU percentage\<close>

lemma cpu_percentage_nonempty:
  assumes "d \<noteq> []"
  shows "cpu_percentage d =
           (if sum_list d = 0 then Inl ZeroDivisionError
            else Inr (100 - real_of_int (last d) * 100 / real_of_int (sum_list d)))"
  using assms by (simp add: cpu_percentage_def getitem_last py_div_def)

lemma GetCPUData_stat_first: "GetCPUData stat_first = Inr [100, 0, 0, 300]"
  by (simp add: GetCPUData_def stat_first_def literal_defs text_defs)

lemma GetCPUData_stat_second: "GetCPUData stat_second = Inr [110, 0, 0, 320]"
  by (simp add: GetCPUData_def stat_second_def literal_defs text_defs)

lemma GetCPUStats_stat: "GetCPUStats stat_first stat_second = cpu_percentage [10, 0, 0, 20]"
  by (simp add: GetCPUStats_def GetCPUDelta_def GetCPUData_stat_first GetCPUData_stat_second
      sample_delta_closed)

text \<open>
  Claim C1. For a CPU delta \<open>[user, nice, system, idle]\<close> whose sum is not zero, the
  percentage is \<open>100 - idle * 100 / sum\<close>, with the last element as \<open>idle\<close>. The witness
  gives the two instances of the claim: the delta \<open>[10, 0, 0, 90]\<close> gives 10, and the
  delta \<open>[10, 0, 0, 20]\<close>, also as the monitor computes it from two contents of
  \<^verbatim>\<open>/proc/stat\<close> with the counters \<open>[100, 0, 0, 300]\<close> and \<open>[110, 0, 0, 320]\<close>, gives
  \<open>100 / 3\<close>, which is 33.33 up to a hundredth.
\<close>

theorem cpu_percentage_formula:
  assumes "user + nice + system + idle \<noteq> 0"
  shows "cpu_percentage [user, nice, system, idle] =
           Inr (100 - real_of_int idle * 100 / real_of_int (user + nice + system + idle))"
  using assms by (simp add: cpu_percentage_nonempty)

theorem cpu_percentage_formula_witness:
  "(10 :: int) + 0 + 0 + 90 \<noteq> 0 \<and> cpu_percentage [10, 0, 0, 90] = Inr 10 \<and>
   (10 :: int) + 0 + 0 + 20 \<noteq> 0 \<and> cpu_percentage [10, 0, 0, 20] = Inr (100 / 3) \<and>
   GetCPUStats stat_first stat_second = Inr (100 / 3) \<and>
   \<bar>100 / 3 - 33.33\<bar> < (0.01 :: real)"
  using cpu_percentage_formula [of 10 0 0 90] cpu_percentage_formula [of 10 0 0 20]
  by (simp add: GetCPUStats_stat)

text \<open>
  Claim C5. When the CPU delta sums to zero the percentage is not computed: the division
  raises \<open>ZeroDivisionError\<close>, in particular for \<open>[0, 0, 0, 0]\<close>. A CPU delta has four
  elements; the theorem needs only that it has one (the last element is read before the
  division is made, and there is none to read in the empty vector).
\<close>

theorem cpu_percentage_zero_sum:
  assumes "d \<noteq> []" and "sum_list d = 0"
  shows "cpu_percentage d = Inl ZeroDivisionError"
  using assms by (simp add: cpu_percentage_nonempty)

theorem cpu_percentage_zero_sum_witness:
  "[0, 0, 0, 0 :: int] \<noteq> [] \<and> sum_list [0, 0, 0, 0 :: int] = 0 \<and>
   cpu_percentage [0, 0, 0, 0] = Inl ZeroDivisionError \<and>
   sum_list [5, 0, 0, - 5 :: int] = 0 \<and> cpu_percentage [5, 0, 0, - 5] = Inl ZeroDivisionError"
  using cpu_percentage_zero_sum [of "[0, 0, 0, 0]"] cpu_percentage_zero_sum [of "[5, 0, 0, - 5]"]
  by simp

section \<open>The CPU snapshot\<close>

lemma py_int_cases: "(\<exists>n. py_int s = Inr n) \<or> py_int s = Inl ValueError"
  by (simp add: py_int_def Let_def split: prod.splits)

lemma mapE_Inr:
  "mapE f xs = Inr v \<longleftrightarrow> length v = length xs \<and> (\<forall>i<length xs. f (xs ! i) = Inr (v ! i))"
proof (induction xs arbitrary: v)
  case Nil
  then show ?case by auto
next
  case (Cons x xs)
  show ?case
  proof (cases v)
    case Nil
    then show ?thesis by (auto simp: bindE_eq_Inr)
  next
    case (Cons w ws)
    then show ?thesis
      by (auto simp: bindE_eq_Inr Cons.IH less_Suc_eq_0_disj)
  qed
qed

lemma mapE_Inl:
  assumes "\<And>x e. f x = Inl e \<Longrightarrow> e = E" and "x \<in> set xs" and "f x = Inl E"
  shows "mapE f xs = Inl E"
  using assms(2,3)
proof (induction xs)
  case Nil
  then show ?case by simp
next
  case (Cons y ys)
  show ?case
  proof (cases "f y")
    case (Inl e)
    with assms(1) show ?thesis by simp
  next
    case (Inr w)
    with Cons have "mapE f ys = Inl E" by auto
    with Inr show ?thesis by simp
  qed
qed

lemma readline_idem: "readline (readline s) = readline s"
  by (induction s) auto

lemma GetCPUData_stat_short: "GetCPUData stat_short = Inr [2]"
  by (simp add: GetCPUData_def stat_short_def literal_defs text_defs)

text \<open>
  Claim C7, as stated: the line is split on whitespace, and fewer than 6 tokens are an
  error. The first line \<^verbatim>\<open>cpu 1 2\<close> has three tokens and the reader returns \<open>[2]\<close>.
  The first line of \<open>stat_first\<close> has two spaces after \<^verbatim>\<open>cpu\<close>, as the kernel
  writes it: split on whitespace, its tokens 2 to 5 are \<open>0, 0, 300, 0\<close>, and the reader
  returns \<open>[100, 0, 0, 300]\<close>.
\<close>

theorem GetCPUData_whitespace_counterexample:
  "length (split_ws (readline stat_short)) < 6 \<and> GetCPUData stat_short = Inr [2] \<and>
   slice (split_ws (readline stat_first)) 2 6 = [''0'', ''0'', ''300'', ''0''] \<and>
   GetCPUData stat_first = Inr [100, 0, 0, 300]"
  by (simp add: GetCPUData_stat_short GetCPUData_stat_first)
    (simp add: stat_short_def stat_first_def text_defs isspace_def)

text \<open>
  Claim C7, amended. The reader depends on the first line only. It splits the line at
  every single space, takes the tokens at the indices 2 to 5 that exist (four when the
  line has six tokens or more, fewer otherwise, and that is no error) and converts each
  with \<^verbatim>\<open>int\<close>. When every token taken is an integer literal it returns their values in
  order; when one of them is not, it fails with \<open>ValueError\<close>.
\<close>

theorem GetCPUData_single_space_tokens:
  "GetCPUData proc_cpu_data = GetCPUData (readline proc_cpu_data) \<and>
   (let tokens = split_sep (CHR '' '') (readline proc_cpu_data);
        cpu_usage = slice tokens 2 6
    in length cpu_usage = min 4 (length tokens - 2) \<and>
       ((\<forall>t\<in>set cpu_usage. \<exists>n. py_int t = Inr n) \<longrightarrow>
          (\<exists>v. GetCPUData proc_cpu_data = Inr v \<and> length v = length cpu_usage \<and>
               (\<forall>i<length cpu_usage. py_int (cpu_usage ! i) = Inr (v ! i)))) \<and>
       ((\<exists>t\<in>set cpu_usage. py_int t = Inl ValueError) \<longrightarrow>
          GetCPUData proc_cpu_data = Inl ValueError))"
proof -
  define cpu_usage where "cpu_usage = slice (split_sep (CHR '' '') (readline proc_cpu_data)) 2 6"
  have len: "length cpu_usage = min 4 (length (split_sep (CHR '' '') (readline proc_cpu_data)) - 2)"
    by (simp add: cpu_usage_def slice_def)
  have ok: "\<exists>v. mapE py_int cpu_usage = Inr v \<and> length v = length cpu_usage \<and>
               (\<forall>i<length cpu_usage. py_int (cpu_usage ! i) = Inr (v ! i))"
    if "\<forall>t\<in>set cpu_usage. \<exists>n. py_int t = Inr n"
  proof -
    from that have "\<forall>i<length cpu_usage. \<exists>n. py_int (cpu_usage ! i) = Inr n"
      by simp
    then obtain g where g: "\<forall>i<length cpu_usage. py_int (cpu_usage ! i) = Inr (g i)"
      by metis
    let ?v = "map g [0..<length cpu_usage]"
    have "mapE py_int cpu_usage = Inr ?v"
      using g by (simp add: mapE_Inr)
    then show ?thesis using g by auto
  qed
  have bad: "mapE py_int cpu_usage = Inl ValueError"
    if "\<exists>t\<in>set cpu_usage. py_int t = Inl ValueError"
  proof -
    from that obtain t where t: "t \<in> set cpu_usage" "py_int t = Inl ValueError" by blast
    have "\<And>x e. py_int x = Inl e \<Longrightarrow> e = ValueError"
      using py_int_cases by (metis Inl_Inr_False sum.inject(1))
    from mapE_Inl [of py_int ValueError, OF this t] show ?thesis .
  qed
  have line: "GetCPUData proc_cpu_data = GetCPUData (readline proc_cpu_data)"
    by (simp add: GetCPUData_def readline_idem)
  show ?thesis
    using line len ok bad by (simp add: GetCPUData_def Let_def cpu_usage_def)
qed

theorem GetCPUData_single_space_tokens_witness:
  "GetCPUData stat_first = Inr [100, 0, 0, 300] \<and>
   GetCPUData stat_short = Inr [2] \<and>
   GetCPUData stat_bad = Inl ValueError \<and>
   GetCPUData stat_first = GetCPUData (readline stat_first)"
proof -
  have "GetCPUData stat_bad = Inl ValueError"
    using GetCPUData_single_space_tokens [of stat_bad]
    by (simp add: stat_bad_def literal_defs text_defs)
  moreover have "GetCPUData stat_first = GetCPUData (readline stat_first)"
    using GetCPUData_single_space_tokens [of stat_first] by simp
  moreover have "GetCPUData stat_short = Inr [2]"
  proof -
    have "\<exists>v. GetCPUData stat_short = Inr v \<and> length v = 1 \<and> Inr 2 = (Inr (v ! 0) :: error + int)"
      using GetCPUData_single_space_tokens [of stat_short]
      by (simp add: stat_short_def literal_defs text_defs)
    then obtain v where v: "GetCPUData stat_short = Inr v" "length v = 1" "v ! 0 = 2"
      by auto
    from v(2,3) have "v = [2]" by (cases v) auto
    with v(1) show ?thesis by simp
  qed
  ultimately show ?thesis
    by (simp add: GetCPUData_stat_first)
qed

section \<open>The I/O rate of one snapshot\<close>

lemma CalculateIOBandwidth_length:
  assumes "CalculateIOBandwidth io_fields = Inr bw"
  shows "length bw = 2"
  using assms by (auto simp: CalculateIOBandwidth_def bindE_eq_Inr Let_def)

text \<open>
  Claim C2. For a line with the fields 5, 6, 9 and 10 numeric (the sectors read, the
  milliseconds spent reading, the sectors written, the milliseconds spent writing) and
  both times not zero, the rates are \<open>(sectors * 512 / 128) / (ms / 1000)\<close>. The code
  multiplies the reciprocal of the seconds by the kilobytes, which is the same real
  number. The witness is the instance of the claim: 256 sectors read in 2000 ms and 128
  sectors written in 1000 ms give 512 and 512.
\<close>

theorem io_rate_formula:
  assumes "10 < length io_fields"
    and "py_float (io_fields ! 5) = Inr sectors_read"
    and "py_float (io_fields ! 6) = Inr ms_read"
    and "py_float (io_fields ! 9) = Inr sectors_written"
    and "py_float (io_fields ! 10) = Inr ms_write"
    and "ms_read \<noteq> 0" and "ms_write \<noteq> 0"
  shows "CalculateIOBandwidth io_fields =
           Inr [(sectors_read * 512 / 128) / (ms_read / 1000),
                (sectors_written * 512 / 128) / (ms_write / 1000)]"
  using assms by (simp add: CalculateIOBandwidth_def getitem_numeral py_div_def)

theorem io_rate_formula_witness:
  "10 < length sda_fields \<and>
   py_float (sda_fields ! 5) = Inr 256 \<and> py_float (sda_fields ! 6) = Inr 2000 \<and>
   py_float (sda_fields ! 9) = Inr 128 \<and> py_float (sda_fields ! 10) = Inr 1000 \<and>
   CalculateIOBandwidth sda_fields = Inr [512, 512]"
proof -
  have f: "10 < length sda_fields"
    "py_float (sda_fields ! 5) = Inr 256" "py_float (sda_fields ! 6) = Inr 2000"
    "py_float (sda_fields ! 9) = Inr 128" "py_float (sda_fields ! 10) = Inr 1000"
    by (simp_all add: sda_fields_def literal_defs)
  from io_rate_formula [OF f] f show ?thesis by simp
qed

section \<open>The disk snapshot\<close>

text \<open>One round of the loop of \<^verbatim>\<open>GetIOData\<close>, by the three cases of a line.\<close>

lemma io_loop_Cons:
  "io_loop disks (line # rest) acc =
     (if length (split_ws line) \<le> 2 then Inl IndexError
      else if \<not> monitored disks line then io_loop disks rest acc
      else bindE (CalculateIOBandwidth (split_ws line)) (\<lambda>bw. io_loop disks rest (Some bw)))"
  by (simp add: getitem_numeral monitored_def Let_def)

lemma io_loop_no_match:
  assumes "\<forall>l\<in>set ls. 2 < length (split_ws l) \<and> split_ws l ! 2 \<notin> set disks"
  shows "io_loop disks ls acc = Inr acc"
  using assms by (induction ls) (simp_all add: io_loop_Cons monitored_def del: io_loop.simps(2))

text \<open>
  When the loop ends without an exception, the variable holds what the last monitored
  line assigned, and what it held before the loop when no line is monitored.
\<close>

lemma io_loop_result:
  assumes "io_loop disks ls acc = Inr r"
  shows "if filter (monitored disks) ls = [] then r = acc
         else \<exists>bw. r = Some bw \<and>
                CalculateIOBandwidth (split_ws (last (filter (monitored disks) ls))) = Inr bw"
  using assms
proof (induction ls arbitrary: acc)
  case Nil
  then show ?case by simp
next
  case (Cons l ls)
  show ?case
  proof (cases "monitored disks l")
    case False
    with Cons.prems have "io_loop disks ls acc = Inr r"
      by (simp add: io_loop_Cons del: io_loop.simps(2) split: if_splits)
    from Cons.IH [OF this] False show ?thesis by simp
  next
    case True
    with Cons.prems obtain bw where
      bw: "CalculateIOBandwidth (split_ws l) = Inr bw" "io_loop disks ls (Some bw) = Inr r"
      by (auto simp: io_loop_Cons bindE_eq_Inr simp del: io_loop.simps(2) split: if_splits)
    from Cons.IH [OF bw(2)] bw(1) True show ?thesis by auto
  qed
qed

lemma io_loop_fields:
  assumes "io_loop disks ls acc = Inr r" and "l \<in> set ls"
  shows "2 < length (split_ws l)"
  using assms
proof (induction ls arbitrary: acc)
  case Nil
  then show ?case by simp
next
  case (Cons x xs)
  from Cons.prems(1) have x: "2 < length (split_ws x)"
    by (simp add: io_loop_Cons del: io_loop.simps(2) split: if_splits)
  from Cons.prems(1) obtain acc' where "io_loop disks xs acc' = Inr r"
    by (auto simp: io_loop_Cons bindE_eq_Inr simp del: io_loop.simps(2) split: if_splits)
  from Cons.IH [OF this] Cons.prems(2) x show ?case by auto
qed

lemma io_loop_short_line:
  assumes "length (split_ws l) < 3"
    and "\<forall>p\<in>set pre. 2 < length (split_ws p) \<and>
           (monitored disks p \<longrightarrow> (\<exists>bw. CalculateIOBandwidth (split_ws p) = Inr bw))"
  shows "io_loop disks (pre @ l # post) acc = Inl IndexError"
  using assms
proof (induction pre arbitrary: acc)
  case Nil
  then show ?case by (simp add: io_loop_Cons del: io_loop.simps(2))
next
  case (Cons p pre)
  then show ?case by (auto simp: io_loop_Cons simp del: io_loop.simps(2))
qed

lemma GetIOData_Inr:
  assumes "GetIOData disks proc_io_data = Inr bw"
  shows "filter (monitored disks) (file_lines proc_io_data) \<noteq> [] \<and>
         CalculateIOBandwidth
           (split_ws (last (filter (monitored disks) (file_lines proc_io_data)))) = Inr bw"
proof -
  from assms have "io_loop disks (file_lines proc_io_data) None = Inr (Some bw)"
    by (auto simp: GetIOData_def bindE_eq_Inr split: option.splits)
  from io_loop_result [OF this] show ?thesis by (auto split: if_splits)
qed

lemma GetIOData_length:
  assumes "GetIOData disks proc_io_data = Inr bw"
  shows "length bw = 2"
  using GetIOData_Inr [OF assms] CalculateIOBandwidth_length by blast

lemma GetIOData_first: "GetIOData DISKS_TO_MONITOR diskstats_first = Inr [512, 512]"
  by (simp add: diskstats_first_def io_defs literal_defs text_defs)

lemma GetIOData_second: "GetIOData DISKS_TO_MONITOR diskstats_second = Inr [1024, 512]"
  by (simp add: diskstats_second_def io_defs literal_defs text_defs)

lemma GetIOData_twice: "GetIOData DISKS_TO_MONITOR diskstats_twice = Inr [1024, 512]"
  by (simp add: diskstats_twice_def io_defs literal_defs text_defs)

lemma GetIOData_blank: "GetIOData DISKS_TO_MONITOR diskstats_blank = Inl IndexError"
  by (simp add: diskstats_blank_def io_defs literal_defs text_defs)

lemma GetIOData_idle_then_blank:
  "GetIOData DISKS_TO_MONITOR diskstats_idle_then_blank = Inl ZeroDivisionError"
  by (simp add: diskstats_idle_then_blank_def io_defs literal_defs text_defs)

text \<open>
  Claim C8, as stated: when no line has a monitored disk at index 2, the reader fails
  because nothing was found. A line with fewer than three fields has no monitored disk at
  index 2, and the reader fails on it with \<open>IndexError\<close>.
\<close>

theorem GetIOData_not_found_counterexample:
  "filter (monitored DISKS_TO_MONITOR) (file_lines diskstats_blank) = [] \<and>
   GetIOData DISKS_TO_MONITOR diskstats_blank = Inl IndexError"
  by (simp add: GetIOData_blank)
    (simp add: diskstats_blank_def monitored_def text_defs isspace_def)

text \<open>
  Claim C8, amended. When every line has at least three fields and no line has a
  monitored disk at index 2, the reader fails with \<open>UnboundLocalError\<close>: it returns a
  variable that was never assigned. When the reader returns a result, some line is
  monitored and the result is the rate computed from the last of the monitored lines.
\<close>

theorem GetIOData_unbound_or_last:
  "((\<forall>l\<in>set (file_lines proc_io_data). 2 < length (split_ws l)) \<and>
    filter (monitored disks) (file_lines proc_io_data) = [] \<longrightarrow>
      GetIOData disks proc_io_data = Inl UnboundLocalError) \<and>
   (GetIOData disks proc_io_data = Inr bw \<longrightarrow>
      filter (monitored disks) (file_lines proc_io_data) \<noteq> [] \<and>
      CalculateIOBandwidth
        (split_ws (last (filter (monitored disks) (file_lines proc_io_data)))) = Inr bw)"
proof -
  have "GetIOData disks proc_io_data = Inl UnboundLocalError"
    if "\<forall>l\<in>set (file_lines proc_io_data). 2 < length (split_ws l)"
      and "filter (monitored disks) (file_lines proc_io_data) = []"
  proof -
    from that have "\<forall>l\<in>set (file_lines proc_io_data).
        2 < length (split_ws l) \<and> split_ws l ! 2 \<notin> set disks"
      by (auto simp: filter_empty_conv monitored_def)
    from io_loop_no_match [OF this] show ?thesis
      by (simp add: GetIOData_def)
  qed
  then show ?thesis using GetIOData_Inr by blast
qed

theorem GetIOData_unbound_or_last_witness:
  "filter (monitored DISKS_TO_MONITOR) (file_lines diskstats_other) = [] \<and>
   GetIOData DISKS_TO_MONITOR diskstats_other = Inl UnboundLocalError \<and>
   GetIOData DISKS_TO_MONITOR diskstats_twice = Inr [1024, 512] \<and>
   last (filter (monitored DISKS_TO_MONITOR) (file_lines diskstats_twice)) =
     ''   8       0 sda 2 2 768 3000 2 2 256 2000 0 0 0'' @ blank_line \<and>
   CalculateIOBandwidth (split_ws (''   8       0 sda 2 2 768 3000 2 2 256 2000 0 0 0'' @ blank_line))
     = Inr [1024, 512]"
proof -
  have lines: "\<forall>l\<in>set (file_lines diskstats_other). 2 < length (split_ws l)"
    and none: "filter (monitored DISKS_TO_MONITOR) (file_lines diskstats_other) = []"
    by (simp_all add: diskstats_other_def monitored_def DISKS_TO_MONITOR_def text_defs isspace_def)
  have l: "last (filter (monitored DISKS_TO_MONITOR) (file_lines diskstats_twice)) =
      ''   8       0 sda 2 2 768 3000 2 2 256 2000 0 0 0'' @ blank_line"
    by (simp add: diskstats_twice_def monitored_def DISKS_TO_MONITOR_def text_defs isspace_def)
  from GetIOData_unbound_or_last [of diskstats_other DISKS_TO_MONITOR] lines none
  have "GetIOData DISKS_TO_MONITOR diskstats_other = Inl UnboundLocalError"
    by blast
  moreover from GetIOData_unbound_or_last [of diskstats_twice DISKS_TO_MONITOR "[1024, 512]"]
  have "CalculateIOBandwidth
      (split_ws (''   8       0 sda 2 2 768 3000 2 2 256 2000 0 0 0'' @ blank_line)) = Inr [1024, 512]"
    using GetIOData_twice l by simp
  ultimately show ?thesis using none l GetIOData_twice by simp
qed

text \<open>
  Claim C9, as stated: a line with fewer than three fields makes the reader fail with an
  index error at that line. In \<open>diskstats_idle_then_blank\<close> the line before it is of a
  monitored disk that has spent no time reading, and the reader fails there, with
  \<open>ZeroDivisionError\<close>, before it comes to the short line.
\<close>

theorem GetIOData_index_error_counterexample:
  "''x'' @ blank_line \<in> set (file_lines diskstats_idle_then_blank) \<and>
   length (split_ws (''x'' @ blank_line)) < 3 \<and>
   GetIOData DISKS_TO_MONITOR diskstats_idle_then_blank = Inl ZeroDivisionError"
  by (simp add: GetIOData_idle_then_blank)
    (simp add: diskstats_idle_then_blank_def text_defs isspace_def)

text \<open>
  Claim C9, amended. When a line \<open>l\<close> of the text has fewer than three fields, the reader
  returns no result. When moreover every line before \<open>l\<close> has at least three fields and,
  where it is of a monitored disk, a rate that \<^verbatim>\<open>CalculateIOBandwidth\<close> computes, the
  reader fails with \<open>IndexError\<close> at \<open>l\<close>. This holds for every set of monitored disks,
  the empty one too: the field at index 2 is read before the disk is looked up.
\<close>

theorem GetIOData_short_line:
  "file_lines proc_io_data = pre @ l # post \<and> length (split_ws l) < 3 \<longrightarrow>
     (\<forall>bw. GetIOData disks proc_io_data \<noteq> Inr bw) \<and>
     ((\<forall>p\<in>set pre. 2 < length (split_ws p) \<and>
         (monitored disks p \<longrightarrow> (\<exists>bw. CalculateIOBandwidth (split_ws p) = Inr bw))) \<longrightarrow>
        GetIOData disks proc_io_data = Inl IndexError)"
proof (intro impI conjI allI)
  fix bw
  assume a: "file_lines proc_io_data = pre @ l # post \<and> length (split_ws l) < 3"
  show "GetIOData disks proc_io_data \<noteq> Inr bw"
  proof
    assume "GetIOData disks proc_io_data = Inr bw"
    then have "io_loop disks (file_lines proc_io_data) None = Inr (Some bw)"
      by (auto simp: GetIOData_def bindE_eq_Inr split: option.splits)
    from io_loop_fields [OF this, of l] a show False by simp
  qed
next
  assume a: "file_lines proc_io_data = pre @ l # post \<and> length (split_ws l) < 3"
    and p: "\<forall>p\<in>set pre. 2 < length (split_ws p) \<and>
         (monitored disks p \<longrightarrow> (\<exists>bw. CalculateIOBandwidth (split_ws p) = Inr bw))"
  from a have "length (split_ws l) < 3" by simp
  from io_loop_short_line [OF this p] a show "GetIOData disks proc_io_data = Inl IndexError"
    by (simp add: GetIOData_def)
qed

theorem GetIOData_short_line_witness:
  "file_lines diskstats_first_then_blank =
     file_lines diskstats_first @ blank_line # file_lines diskstats_second \<and>
   length (split_ws blank_line) < 3 \<and>
   GetIOData DISKS_TO_MONITOR diskstats_first_then_blank = Inl IndexError \<and>
   GetIOData [] diskstats_first_then_blank = Inl IndexError"
proof -
  have l: "file_lines diskstats_first_then_blank =
     file_lines diskstats_first @ blank_line # file_lines diskstats_second"
    by (simp add: diskstats_first_then_blank_def diskstats_first_def diskstats_second_def
        blank_line_def)
  have s: "length (split_ws blank_line) < 3"
    by (simp add: text_defs isspace_def)
  have p: "\<forall>p\<in>set (file_lines diskstats_first). 2 < length (split_ws p) \<and>
         (monitored DISKS_TO_MONITOR p \<longrightarrow> (\<exists>bw. CalculateIOBandwidth (split_ws p) = Inr bw))"
    by (simp add: diskstats_first_def monitored_def io_defs literal_defs text_defs)
  have q: "\<forall>p\<in>set (file_lines diskstats_first). 2 < length (split_ws p) \<and>
         (monitored [] p \<longrightarrow> (\<exists>bw. CalculateIOBandwidth (split_ws p) = Inr bw))"
    by (simp add: diskstats_first_def monitored_def text_defs isspace_def)
  from GetIOData_short_line [of diskstats_first_then_blank "file_lines diskstats_first"
      blank_line "file_lines diskstats_second" DISKS_TO_MONITOR] l s p
  have "GetIOData DISKS_TO_MONITOR diskstats_first_then_blank = Inl IndexError"
    by blast
  moreover
  from GetIOData_short_line [of diskstats_first_then_blank "file_lines diskstats_first"
      blank_line "file_lines diskstats_second" "[]"] l s q
  have "GetIOData [] diskstats_first_then_blank = Inl IndexError"
    by blast
  ultimately show ?thesis using l s by simp
qed

section \<open>The I/O numbers of one tick\<close>

lemma GetIOReadStats_Inr:
  assumes "GetIOData disks diskstats1 = Inr first_rates"
    and "GetIOData disks diskstats2 = Inr second_rates"
  shows "GetIOReadStats disks diskstats1 diskstats2 =
           Inr (second_rates ! 0 - first_rates ! 0, second_rates ! 1 - first_rates ! 1)"
proof -
  have "length first_rates = 2" "length second_rates = 2"
    using assms GetIOData_length by blast+
  then obtain a b c d where "first_rates = [a, b]" "second_rates = [c, d]"
    using length_two by metis
  then show ?thesis
    using assms by (simp add: GetIOReadStats_def GetIODelta_def sample_delta_closed getitem_def)
qed

lemma CalculateIOBandwidth_raw_delta: "CalculateIOBandwidth raw_delta_fields = Inr [2048, 512]"
  by (simp add: raw_delta_fields_def io_defs literal_defs)

text \<open>
  Claim C3. When both snapshots are read, the numbers of the tick are the differences,
  read rate and write rate, of the two rates, each of which
  \<^verbatim>\<open>CalculateIOBandwidth\<close> computed from the fields of the line of its own snapshot.
  They are not the rate of the differences of the counters: for the two sample contents
  the tick gives \<open>(512, 0)\<close>, and the rate computed from the differences of the counters
  (\<open>raw_delta_fields\<close>) is \<open>[2048, 512]\<close>.
\<close>

theorem io_stats_delta_of_rates:
  "(GetIOData disks diskstats1 = Inr first_rates \<and>
    GetIOData disks diskstats2 = Inr second_rates \<longrightarrow>
      GetIOReadStats disks diskstats1 diskstats2 =
        Inr (second_rates ! 0 - first_rates ! 0, second_rates ! 1 - first_rates ! 1) \<and>
      CalculateIOBandwidth
        (split_ws (last (filter (monitored disks) (file_lines diskstats1)))) = Inr first_rates \<and>
      CalculateIOBandwidth
        (split_ws (last (filter (monitored disks) (file_lines diskstats2)))) = Inr second_rates) \<and>
   GetIOReadStats DISKS_TO_MONITOR diskstats_first diskstats_second = Inr (512, 0) \<and>
   CalculateIOBandwidth raw_delta_fields = Inr [2048, 512]"
proof -
  have "GetIOReadStats DISKS_TO_MONITOR diskstats_first diskstats_second = Inr (512, 0)"
    using GetIOReadStats_Inr [OF GetIOData_first GetIOData_second] by simp
  then show ?thesis
    using GetIOReadStats_Inr GetIOData_Inr CalculateIOBandwidth_raw_delta by blast
qed

theorem io_stats_delta_of_rates_witness:
  "GetIOData DISKS_TO_MONITOR diskstats_first = Inr [512, 512] \<and>
   GetIOData DISKS_TO_MONITOR diskstats_second = Inr [1024, 512] \<and>
   GetIOReadStats DISKS_TO_MONITOR diskstats_first diskstats_second =
     Inr (1024 - 512, 512 - 512)"
  using io_stats_delta_of_rates [of DISKS_TO_MONITOR diskstats_first "[512, 512]"
      diskstats_second "[1024, 512]"]
  by (simp add: GetIOData_first GetIOData_second)

end
